theory Spec2Isabelle
  imports Complex_Main "HOL-Library.AList"
begin

section \<open>Numbers, errors and dictionaries\<close>

text \<open>
  The engine of \<^verbatim>\<open>functions.py\<close> computes on Python numbers. Amounts, percentages
  and rates are embedded as \<^typ>\<open>real\<close>, month and year counts and ages as
  \<^typ>\<open>int\<close>. Arithmetic is exact, and the values stated below are the exact results,
  with one exception: in the annuity formula of the goal calculators and of the inflation
  adjuster the rounding of binary floating point decides whether the divisor
  \<^verbatim>\<open>((1 + r) ** n) - 1\<close> is zero and whether the power leaves the range of the floats,
  so the monthly rate \<open>r\<close> and the sum \<open>1 + r\<close> are rounded there, and a power out of range
  raises. Infinities and NaN are outside this embedding.

  A Python exception is a value of \<open>error\<close> on the left of a sum.
\<close>

datatype error = ZeroDivisionError | OverflowError | KeyError string | ValueError

definition py_div :: "real \<Rightarrow> real \<Rightarrow> error + real" where
  "py_div a b = (if b = 0 then Inl ZeroDivisionError else Inr (a / b))"

text \<open>
  Rounding to the nearest integer, a tie going to the even one, as \<^verbatim>\<open>round\<close> and the
  arithmetic of the floats do.
\<close>

definition round_half_even :: "real \<Rightarrow> int" where
  "round_half_even x =
     (let f = \<lfloor>x\<rfloor>; d = x - of_int f
      in if d < 1 / 2 then f else if d > 1 / 2 then f + 1 else if even f then f else f + 1)"

text \<open>
  A Python \<^verbatim>\<open>float\<close> is a binary64 number: a significand of 53 bits and an exponent
  from \<open>-1022\<close> to \<open>1023\<close>. \<open>float_exponent x\<close> is the exponent \<open>e\<close> with
  \<open>2 powi e \<le> \<bar>x\<bar> < 2 powi (e + 1)\<close>, kept within that range (below it the numbers
  are subnormal and keep the spacing of exponent \<open>-1022\<close>); it is found by counting up
  from \<open>0\<close> or down from \<open>-1\<close>. \<open>float_round x\<close> is the multiple of the unit in the last
  place \<open>2 powi (e - 52)\<close> nearest to \<open>x\<close>, a tie going to the even multiple: the result
  of an arithmetic operation whose exact value is \<open>x\<close>. \<open>float_max\<close> is the largest
  float, and an operation overflows when its rounded result lies beyond it.
\<close>

fun exponent_up :: "nat \<Rightarrow> int \<Rightarrow> real \<Rightarrow> int" where
  "exponent_up 0 e x = e"
| "exponent_up (Suc fuel) e x = (if x < 2 powi (e + 1) then e else exponent_up fuel (e + 1) x)"

fun exponent_down :: "nat \<Rightarrow> int \<Rightarrow> real \<Rightarrow> int" where
  "exponent_down 0 e x = e"
| "exponent_down (Suc fuel) e x = (if 2 powi e \<le> x then e else exponent_down fuel (e - 1) x)"

definition float_exponent :: "real \<Rightarrow> int" where
  "float_exponent x =
     (if 1 \<le> \<bar>x\<bar> then exponent_up 1023 0 \<bar>x\<bar> else exponent_down 1021 (- 1) \<bar>x\<bar>)"

definition float_round :: "real \<Rightarrow> real" where
  "float_round x =
     (let ulp = 2 powi (float_exponent x - 52) in of_int (round_half_even (x / ulp)) * ulp)"

definition float_max :: real where
  "float_max = (2 ^ 53 - 1) * 2 ^ 971"

definition float_overflow :: "real \<Rightarrow> bool" where
  "float_overflow x = (float_max < \<bar>float_round x\<bar>)"

text \<open>
  \<^verbatim>\<open>b ** n\<close> of a float and an integer: the exponent is converted to a float, which
  raises \<^verbatim>\<open>OverflowError\<close> when it is out of range; zero to a negative power raises
  \<^verbatim>\<open>ZeroDivisionError\<close>; a result out of range raises \<^verbatim>\<open>OverflowError\<close>. The
  value is kept exact: for a float \<open>b\<close> other than \<open>1\<close> and \<open>-1\<close> and an exponent other
  than \<open>0\<close> neither the power nor its rounding is \<open>1\<close>, so the test of the divisor
  \<^verbatim>\<open>(b ** n) - 1\<close> against zero is the same on both.
\<close>

definition py_pow :: "real \<Rightarrow> int \<Rightarrow> error + real" where
  "py_pow b n = (if float_overflow (of_int n) then Inl OverflowError
                 else if b = 0 \<and> n < 0 then Inl ZeroDivisionError
                 else if float_overflow (b powi n) then Inl OverflowError
                 else Inr (b powi n))"

text \<open>
  A \<^verbatim>\<open>dict\<close> keeps its keys in insertion order, so it is an association list;
  \<^const>\<open>AList.update\<close> overwrites a key where it stands and appends a new key at the end,
  as assignment to \<^verbatim>\<open>d[k]\<close> does.
\<close>

type_synonym allocation = "(string \<times> real) list"

definition dict_item :: "(string \<times> 'v) list \<Rightarrow> string \<Rightarrow> error + 'v" where
  \<comment> \<open>\<^verbatim>\<open>d[k]\<close>\<close>
  "dict_item d k = (case map_of d k of None \<Rightarrow> Inl (KeyError k) | Some v \<Rightarrow> Inr v)"

definition dict_get :: "(string \<times> 'v) list \<Rightarrow> string \<Rightarrow> 'v \<Rightarrow> 'v" where
  \<comment> \<open>\<^verbatim>\<open>d.get(k, default)\<close>\<close>
  "dict_get d k dflt = (case map_of d k of None \<Rightarrow> dflt | Some v \<Rightarrow> v)"

definition dict_values_sum :: "allocation \<Rightarrow> real" where
  \<comment> \<open>\<^verbatim>\<open>sum(d.values())\<close>\<close>
  "dict_values_sum d = sum_list (map snd d)"

definition get_or :: "'a \<Rightarrow> 'a option \<Rightarrow> 'a" where
  \<comment> \<open>a field read with \<^verbatim>\<open>.get(key, default)\<close> from a dict that may lack it\<close>
  "get_or dflt x = (case x of None \<Rightarrow> dflt | Some v \<Rightarrow> v)"

section \<open>Allocator\<close>

text \<open>
  \<^verbatim>\<open>def allocate_budget(total_amount, savings_pct, investment_pct, personal_pct, misc_pct=15)\<close>:
  the last argument is optional, \<open>None\<close> standing for a call that leaves it out.
\<close>

definition allocate_budget :: "real \<Rightarrow> real \<Rightarrow> real \<Rightarrow> real \<Rightarrow> real option \<Rightarrow> allocation" where
  "allocate_budget total_amount savings_pct investment_pct personal_pct misc_arg =
     (let misc_pct = get_or 15 misc_arg in
      [(''savings'', total_amount * (savings_pct / 100)),
       (''investments'', total_amount * (investment_pct / 100)),
       (''personal'', total_amount * (personal_pct / 100)),
       (''misc'', total_amount * (misc_pct / 100))])"

section \<open>Goal calculators\<close>

definition savings_goal_calculator :: "real \<Rightarrow> int \<Rightarrow> error + real" where
  "savings_goal_calculator target_amount months = py_div target_amount (of_int months)"

text \<open>
  \<open>monthly_rate\<close> is \<^verbatim>\<open>(annual_return_pct / 100) / 12\<close>, each quotient rounded: a
  rate too small for the floats is \<open>0\<close>. In the annuity formula the sum \<^verbatim>\<open>1 + r\<close> is
  rounded, so that it is \<open>1\<close> for a rate \<open>r\<close> below half the spacing of the floats at
  \<open>1\<close>; the divisor is then zero although \<open>r\<close> is not.
\<close>

definition monthly_rate :: "real \<Rightarrow> real" where
  "monthly_rate annual_return_pct = float_round (float_round (annual_return_pct / 100) / 12)"

definition investment_goal_calculator :: "real \<Rightarrow> int \<Rightarrow> real \<Rightarrow> error + real" where
  "investment_goal_calculator target_amount months annual_return_pct =
     (let r = monthly_rate annual_return_pct;
          n = months
      in if r = 0 then py_div target_amount (of_int n)
         else (case py_pow (float_round (1 + r)) n of
                 Inl e \<Rightarrow> Inl e
               | Inr p \<Rightarrow> py_div (target_amount * r) (p - 1)))"

section \<open>Reallocation planner\<close>

text \<open>
  The loop of \<open>create_unified_reallocation_plan\<close> over \<^verbatim>\<open>['misc', 'personal']\<close>. The
  state is the copy \<open>new_allocation\<close> and \<open>remaining_shortfall\<close>; the first equation of
  the step is the \<^verbatim>\<open>break\<close>.
\<close>

fun reduce_loop ::
  "allocation \<Rightarrow> real \<Rightarrow> string list \<Rightarrow> allocation \<times> real \<Rightarrow> error + (allocation \<times> real)" where
  "reduce_loop allocation total_income [] st = Inr st"
| "reduce_loop allocation total_income (category # rest) (new_allocation, remaining_shortfall) =
     (if remaining_shortfall \<le> 0 then Inr (new_allocation, remaining_shortfall)
      else (case dict_item allocation category of
              Inl e \<Rightarrow> Inl e
            | Inr amount \<Rightarrow>
                (let min_amount = total_income * 0.05;
                     available = max 0 (amount - min_amount);
                     reduction = min available remaining_shortfall
                 in if reduction > 0
                    then (case dict_item new_allocation category of
                            Inl e \<Rightarrow> Inl e
                          | Inr cur \<Rightarrow>
                              reduce_loop allocation total_income rest
                                (AList.update category (cur - reduction) new_allocation,
                                 remaining_shortfall - reduction))
                    else reduce_loop allocation total_income rest
                           (new_allocation, remaining_shortfall))))"

definition create_unified_reallocation_plan ::
  "allocation \<Rightarrow> real \<Rightarrow> real \<Rightarrow> real \<Rightarrow> error + allocation option" where
  "create_unified_reallocation_plan allocation savings_shortfall investment_shortfall total_income =
     (let total_shortfall = savings_shortfall + investment_shortfall;
          reduction_priority = [''misc'', ''personal'']
      in case reduce_loop allocation total_income reduction_priority
                (allocation, total_shortfall) of
           Inl e \<Rightarrow> Inl e
         | Inr (new_allocation, remaining_shortfall) \<Rightarrow>
             if remaining_shortfall < total_shortfall then
               (let freed_amount = total_shortfall - remaining_shortfall in
                case (if savings_shortfall > 0
                      then (let amount_to_savings = min savings_shortfall freed_amount in
                            case dict_item new_allocation ''savings'' of
                              Inl e \<Rightarrow> Inl e
                            | Inr cur \<Rightarrow>
                                Inr (AList.update ''savings'' (cur + amount_to_savings)
                                       new_allocation,
                                     freed_amount - amount_to_savings))
                      else Inr (new_allocation, freed_amount)) of
                  Inl e \<Rightarrow> Inl e
                | Inr (new_allocation, freed_amount) \<Rightarrow>
                    if investment_shortfall > 0 \<and> freed_amount > 0
                    then (let amount_to_investments = min investment_shortfall freed_amount in
                          case dict_item new_allocation ''investments'' of
                            Inl e \<Rightarrow> Inl e
                          | Inr cur \<Rightarrow>
                              Inr (Some (AList.update ''investments''
                                           (cur + amount_to_investments) new_allocation)))
                    else Inr (Some new_allocation))
             else Inr None)"

text \<open>
  The total of an Allocation over its four categories, each read as \<^verbatim>\<open>d[k]\<close>.
\<close>

definition category_total :: "allocation \<Rightarrow> error + real" where
  "category_total d =
     (case (dict_item d ''savings'', dict_item d ''investments'',
            dict_item d ''personal'', dict_item d ''misc'') of
        (Inr a, Inr b, Inr c, Inr e) \<Rightarrow> Inr (a + b + c + e)
      | (Inl x, _, _, _) \<Rightarrow> Inl x
      | (_, Inl x, _, _) \<Rightarrow> Inl x
      | (_, _, Inl x, _) \<Rightarrow> Inl x
      | (_, _, _, Inl x) \<Rightarrow> Inl x)"

section \<open>Asset allocation optimizer\<close>

text \<open>
  \<^verbatim>\<open>str.lower\<close> and \<^verbatim>\<open>str.capitalize\<close> on ASCII letters; other characters are kept.
\<close>

definition lower_char :: "char \<Rightarrow> char" where
  "lower_char c =
     (let n = (of_char c :: nat) in if 65 \<le> n \<and> n \<le> 90 then char_of (n + 32) else c)"

definition upper_char :: "char \<Rightarrow> char" where
  "upper_char c =
     (let n = (of_char c :: nat) in if 97 \<le> n \<and> n \<le> 122 then char_of (n - 32) else c)"

definition lower :: "string \<Rightarrow> string" where
  "lower s = map lower_char s"

definition capitalize :: "string \<Rightarrow> string" where
  "capitalize s = (case s of [] \<Rightarrow> [] | c # cs \<Rightarrow> upper_char c # map lower_char cs)"

text \<open>
  \<^verbatim>\<open>round(x, 1)\<close>: the multiple of 0.1 nearest to \<open>x\<close>, a tie going to the even
  multiple.
\<close>

definition round_1 :: "real \<Rightarrow> real" where
  "round_1 x = of_int (round_half_even (x * 10)) / 10"

record asset_allocation =
  stocks :: real
  bonds :: real
  cash :: real
  risk_profile :: string
  rebalance_trigger :: int

definition risk_profiles :: "(string \<times> (real \<times> real \<times> real)) list" where
  \<comment> \<open>\<open>base_stocks\<close>, \<open>base_bonds\<close>, \<open>base_cash\<close>\<close>
  "risk_profiles =
     [(''conservative'', (30, 55, 15)),
      (''moderate'', (60, 30, 10)),
      (''aggressive'', (80, 15, 5))]"

definition asset_allocation_optimizer :: "int \<Rightarrow> string \<Rightarrow> int \<Rightarrow> error + asset_allocation" where
  "asset_allocation_optimizer age risk_tolerance timeline_years =
     (let profile = dict_get risk_profiles (lower risk_tolerance) (60, 30, 10);
          (stock_pct, bond_pct, cash_pct) = profile;
          age_adj = (if age < 30 then 10
                     else if age < 40 then 5
                     else if age < 50 then 0
                     else if age < 60 then -10
                     else -20);
          (stock_pct, bond_pct, cash_pct) =
            (if lower risk_tolerance \<noteq> ''conservative''
             then (let stock_pct = max 20 (min 85 (stock_pct + age_adj));
                       remaining = 100 - stock_pct
                   in (stock_pct, remaining * 0.75, remaining * 0.25))
             else (stock_pct, bond_pct, cash_pct));
          (stock_pct, bond_pct, cash_pct) =
            (if timeline_years < 2
             then (let stock_pct = max 10 (stock_pct - 30);
                       cash_pct = max 30 (cash_pct + 20)
                   in (stock_pct, 100 - stock_pct - cash_pct, cash_pct))
             else if timeline_years < 5
             then (let stock_pct = max 20 (stock_pct - 15);
                       cash_pct = max 15 (cash_pct + 10)
                   in (stock_pct, 100 - stock_pct - cash_pct, cash_pct))
             else (stock_pct, bond_pct, cash_pct));
          (stock_pct, bond_pct, cash_pct) =
            (if lower risk_tolerance = ''conservative''
             then (let stock_pct = min stock_pct 40;
                       remaining = 100 - stock_pct
                   in (stock_pct, remaining * 0.7, remaining * 0.3))
             else (stock_pct, bond_pct, cash_pct));
          total = stock_pct + bond_pct + cash_pct
      in case (if total \<noteq> 100
               then (case (py_div stock_pct total, py_div bond_pct total,
                           py_div cash_pct total) of
                       (Inr s, Inr b, Inr c) \<Rightarrow> Inr (s * 100, b * 100, c * 100)
                     | (Inl e, _, _) \<Rightarrow> Inl e
                     | (_, Inl e, _) \<Rightarrow> Inl e
                     | (_, _, Inl e) \<Rightarrow> Inl e)
               else Inr (stock_pct, bond_pct, cash_pct)) of
           Inl e \<Rightarrow> Inl e
         | Inr (stock_pct, bond_pct, cash_pct) \<Rightarrow>
             Inr \<lparr>stocks = round_1 stock_pct,
                  bonds = round_1 bond_pct,
                  cash = round_1 cash_pct,
                  risk_profile = capitalize risk_tolerance,
                  rebalance_trigger = 5\<rparr>)"

text \<open>
  The optimizer reads the age and the timeline only through the comparisons above, so an
  age and a timeline behave as the representatives of their brackets.
\<close>

definition age_bucket :: "int \<Rightarrow> int" where
  "age_bucket age = (if age < 30 then 29 else if age < 40 then 39 else if age < 50 then 49
                     else if age < 60 then 59 else 60)"

definition timeline_bucket :: "int \<Rightarrow> int" where
  "timeline_bucket t = (if t < 2 then 1 else if t < 5 then 2 else 5)"

definition sums_to_100 :: "error + asset_allocation \<Rightarrow> bool" where
  "sums_to_100 r = (case r of Inl _ \<Rightarrow> False
                    | Inr a \<Rightarrow> \<bar>stocks a + bonds a + cash a - 100\<bar> \<le> 0.1)"

definition stocks_at_most :: "real \<Rightarrow> error + asset_allocation \<Rightarrow> bool" where
  "stocks_at_most bound r = (case r of Inl _ \<Rightarrow> False | Inr a \<Rightarrow> stocks a \<le> bound)"

section \<open>Sorting\<close>

text \<open>
  \<^verbatim>\<open>list.sort(key=..., reverse=True)\<close> and \<^verbatim>\<open>sorted(..., key=..., reverse=True)\<close> are
  stable: the list is reversed, sorted in ascending order of the key by a stable sort, and
  reversed again, so the keys descend and equal keys keep the order of the input.
  \<^verbatim>\<open>list.index\<close> raises \<open>ValueError\<close> for an element that is not in the list, and a
  key function that raises makes the sort raise.
\<close>

definition py_sorted_reverse :: "('a \<Rightarrow> 'k::linorder) \<Rightarrow> 'a list \<Rightarrow> 'a list" where
  "py_sorted_reverse key xs = rev (sort_key key (rev xs))"




section \<open>Dynamic reallocation advisor\<close>



record surplus_category =
  sp_category :: string
  sp_surplus :: real
  sp_allocated :: real
  sp_spent :: real
  sp_usage_pct :: real

datatype action =
    Cover real "(real \<times> string) list"
  | Boost real
  | Redirect real string "(real \<times> string) list"
  | Overspent real
  | UsingOnly real real

record suggestion =
  sug_type :: string
  sug_category :: string
  sug_allocated :: real
  sug_spent :: real
  sug_action :: action
  sug_priority :: string

text \<open>
  The first pass, over \<^verbatim>\<open>allocation.keys()\<close>: \<open>usage_percentage\<close> is the expression
  \<^verbatim>\<open>(spent / allocated * 100) if allocated > 0 else 0\<close>, and \<open>analyse_categories\<close> is
  the loop, whose state is \<open>category_analysis\<close>, \<open>total_surplus\<close> and \<open>total_deficit\<close>.
\<close>

definition usage_percentage :: "real \<Rightarrow> real \<Rightarrow> error + real" where
  "usage_percentage spent allocated =
     (if allocated > 0
      then (case py_div spent allocated of Inl e \<Rightarrow> Inl e | Inr q \<Rightarrow> Inr (q * 100))
      else Inr 0)"





text \<open>
  Case 2 is the loop over \<^verbatim>\<open>['savings', 'investments']\<close>, case 3 the loop over the
  deficits, followed in every case by the efficiency tips.
\<close>

fun redirect_surplus ::
  "allocation \<Rightarrow> allocation \<Rightarrow> surplus_category list \<Rightarrow> real \<Rightarrow> string list
     \<Rightarrow> suggestion list \<Rightarrow> suggestion list" where
  "redirect_surplus allocation actual_spending surplus_categories total_surplus []
     suggestions = suggestions"
| "redirect_surplus allocation actual_spending surplus_categories total_surplus
     (priority_cat # rest) suggestions =
     (if total_surplus > 0
      then (let sources = map (\<lambda>s. (sp_surplus s, sp_category s)) surplus_categories
            in suggestions @
                 [\<lparr>sug_type = ''surplus_reallocation'',
                   sug_category = priority_cat,
                   sug_allocated = dict_get allocation priority_cat 0,
                   sug_spent = dict_get actual_spending priority_cat 0,
                   sug_action = Redirect total_surplus priority_cat sources,
                   sug_priority = ''High''\<rparr>])
      else redirect_surplus allocation actual_spending surplus_categories total_surplus
             rest suggestions)"











section \<open>Goal conflict resolver\<close>

text \<open>
  A goal is a dict whose fields are read with \<^verbatim>\<open>.get(key, default)\<close>, so each field
  may be absent.
\<close>

record goal =
  goal_name :: "string option"
  goal_target_amount :: "real option"
  goal_monthly_required :: "real option"
  goal_deadline_months :: "int option"
  goal_timeline_months :: "int option"
  goal_expected_return :: "real option"

record scored_goal =
  sg_name :: string
  sg_target_amount :: real
  sg_monthly_required :: real
  sg_deadline_months :: int
  sg_expected_return :: real
  sg_urgency_score :: int
  sg_roi_score :: int
  sg_feasibility_score :: int
  sg_total_score :: real
  sg_priority :: string

text \<open>
  The three scores; \<open>score_goal\<close> is the body of the loop of \<open>goal_conflict_resolver\<close>
  and \<open>score_goals\<close> the loop.
\<close>

definition calculate_urgency_score :: "int \<Rightarrow> int" where
  "calculate_urgency_score deadline_months =
     (if deadline_months \<le> 3 then 10
      else if deadline_months \<le> 6 then 8
      else if deadline_months \<le> 12 then 6
      else if deadline_months \<le> 24 then 4
      else 2)"

definition calculate_roi_score :: "real \<Rightarrow> int \<Rightarrow> error + int" where
  "calculate_roi_score expected_return timeline_months =
     (if timeline_months = 0 then Inr 0
      else (case py_div expected_return (of_int timeline_months) of
              Inl e \<Rightarrow> Inl e
            | Inr q \<Rightarrow>
                (let annualized_return = q * 12
                 in Inr (if annualized_return \<ge> 15 then 10
                         else if annualized_return \<ge> 12 then 8
                         else if annualized_return \<ge> 8 then 6
                         else if annualized_return \<ge> 5 then 4
                         else 2))))"

definition calculate_feasibility_score :: "real \<Rightarrow> real \<Rightarrow> allocation \<Rightarrow> error + int" where
  "calculate_feasibility_score monthly_required monthly_income current_allocation =
     (let available_funds = monthly_income - dict_values_sum current_allocation
      in if monthly_required = 0 then Inr 5
         else (case (if monthly_required > 0 then py_div available_funds monthly_required
                     else Inr 0) of
                 Inl e \<Rightarrow> Inl e
               | Inr coverage_ratio \<Rightarrow>
                   Inr (if coverage_ratio \<ge> 1.5 then 10
                        else if coverage_ratio \<ge> 1.0 then 8
                        else if coverage_ratio \<ge> 0.7 then 6
                        else if coverage_ratio \<ge> 0.5 then 4
                        else 2)))"

definition score_goal :: "real \<Rightarrow> allocation \<Rightarrow> goal \<Rightarrow> error + scored_goal" where
  "score_goal monthly_income current_allocation goal =
     (let urgency_score = calculate_urgency_score (get_or 12 (goal_deadline_months goal)) in
      case calculate_roi_score (get_or 0 (goal_expected_return goal))
             (get_or 12 (goal_timeline_months goal)) of
        Inl e \<Rightarrow> Inl e
      | Inr roi_score \<Rightarrow>
          (case calculate_feasibility_score (get_or 0 (goal_monthly_required goal))
                  monthly_income current_allocation of
             Inl e \<Rightarrow> Inl e
           | Inr feasibility_score \<Rightarrow>
               (let total_score = (of_int urgency_score * 0.4) + (of_int roi_score * 0.3)
                                    + (of_int feasibility_score * 0.3)
                in Inr \<lparr>sg_name = get_or ''Unnamed Goal'' (goal_name goal),
                        sg_target_amount = get_or 0 (goal_target_amount goal),
                        sg_monthly_required = get_or 0 (goal_monthly_required goal),
                        sg_deadline_months = get_or 12 (goal_deadline_months goal),
                        sg_expected_return = get_or 0 (goal_expected_return goal),
                        sg_urgency_score = urgency_score,
                        sg_roi_score = roi_score,
                        sg_feasibility_score = feasibility_score,
                        sg_total_score = total_score,
                        sg_priority = (if total_score \<ge> 7 then ''High''
                                    else if total_score \<ge> 5 then ''Medium'' else ''Low'')\<rparr>)))"

fun score_goals :: "real \<Rightarrow> allocation \<Rightarrow> goal list \<Rightarrow> scored_goal list \<Rightarrow> error + scored_goal list" where
  "score_goals monthly_income current_allocation [] scored_goals = Inr scored_goals"
| "score_goals monthly_income current_allocation (goal # rest) scored_goals =
     (case score_goal monthly_income current_allocation goal of
        Inl e \<Rightarrow> Inl e
      | Inr sg \<Rightarrow> score_goals monthly_income current_allocation rest (scored_goals @ [sg]))"

definition goal_conflict_resolver ::
  "goal list \<Rightarrow> real \<Rightarrow> allocation \<Rightarrow> error + scored_goal list option" where
  "goal_conflict_resolver goals monthly_income current_allocation =
     (if goals = [] \<or> length goals < 2 then Inr None
      else (case score_goals monthly_income current_allocation goals [] of
              Inl e \<Rightarrow> Inl e
            | Inr scored_goals \<Rightarrow> Inr (Some (py_sorted_reverse sg_total_score scored_goals))))"


section \<open>Inflation adjuster and tax-loss tracker\<close>










section \<open>Example goals\<close>

definition trip :: goal where
  "trip = \<lparr>goal_name = Some ''trip'', goal_target_amount = Some 1000,
           goal_monthly_required = Some 100, goal_deadline_months = None,
           goal_timeline_months = Some 12, goal_expected_return = Some 0\<rparr>"

definition house :: goal where
  "house = \<lparr>goal_name = Some ''house'', goal_target_amount = Some 1000,
            goal_monthly_required = Some 100, goal_deadline_months = None,
            goal_timeline_months = Some 12, goal_expected_return = Some 15\<rparr>"

definition car :: goal where
  "car = \<lparr>goal_name = Some ''car'', goal_target_amount = Some 1000,
          goal_monthly_required = Some 100, goal_deadline_months = None,
          goal_timeline_months = Some 12, goal_expected_return = Some 0\<rparr>"



section \<open>Properties of the rounding\<close>

text \<open>
  The exponent found by the two searches is the one of the binary representation, so the
  rounding can be evaluated at a given exponent; rounding keeps a bound that is a power of
  two, which is itself a float.
\<close>

lemma exponent_up_bounds:
  "2 powi e \<le> x \<Longrightarrow> e \<le> exponent_up fuel e x \<and> exponent_up fuel e x \<le> e + int fuel
     \<and> 2 powi (exponent_up fuel e x) \<le> x
     \<and> (x < 2 powi (e + int fuel + 1) \<longrightarrow> x < 2 powi (exponent_up fuel e x + 1))"
proof (induction fuel arbitrary: e)
  case 0
  then show ?case by simp
next
  case (Suc fuel)
  show ?case
  proof (cases "x < 2 powi (e + 1)")
    case True
    with Suc.prems show ?thesis by simp
  next
    case False
    then have "2 powi (e + 1) \<le> x" by simp
    from Suc.IH [OF this] False show ?thesis by (simp add: add.assoc add.commute)
  qed
qed

lemma exponent_down_bounds:
  "x < 2 powi (e + 1) \<Longrightarrow> e - int fuel \<le> exponent_down fuel e x \<and> exponent_down fuel e x \<le> e
     \<and> x < 2 powi (exponent_down fuel e x + 1)
     \<and> (2 powi (e - int fuel) \<le> x \<longrightarrow> 2 powi (exponent_down fuel e x) \<le> x)"
proof (induction fuel arbitrary: e)
  case 0
  then show ?case by simp
next
  case (Suc fuel)
  show ?case
  proof (cases "2 powi e \<le> x")
    case True
    with Suc.prems show ?thesis by simp
  next
    case False
    then have "x < 2 powi (e - 1 + 1)" by simp
    from Suc.IH [OF this] False show ?thesis by (simp add: algebra_simps)
  qed
qed

lemma float_exponent_range: "- 1022 \<le> float_exponent x \<and> float_exponent x \<le> 1023"
proof (cases "1 \<le> \<bar>x\<bar>")
  case True
  then have "(2::real) powi 0 \<le> \<bar>x\<bar>" by simp
  from exponent_up_bounds [OF this, of 1023] True show ?thesis
    by (simp add: float_exponent_def)
next
  case False
  then have "\<bar>x\<bar> < 2 powi (- 1 + 1)" by simp
  from exponent_down_bounds [OF this, of 1021] False show ?thesis
    by (simp add: float_exponent_def)
qed

lemma float_exponent_lower:
  assumes "2 powi (- 1022) \<le> \<bar>x\<bar>"
  shows "2 powi (float_exponent x) \<le> \<bar>x\<bar>"
proof (cases "1 \<le> \<bar>x\<bar>")
  case True
  then have "(2::real) powi 0 \<le> \<bar>x\<bar>" by simp
  from exponent_up_bounds [OF this, of 1023] True show ?thesis
    by (simp add: float_exponent_def)
next
  case False
  then have "\<bar>x\<bar> < 2 powi (- 1 + 1)" by simp
  from exponent_down_bounds [OF this, of 1021] False assms show ?thesis
    by (simp add: float_exponent_def)
qed

lemma float_exponent_upper:
  assumes "\<bar>x\<bar> < 2 powi 1024"
  shows "\<bar>x\<bar> < 2 powi (float_exponent x + 1)"
proof (cases "1 \<le> \<bar>x\<bar>")
  case True
  then have "(2::real) powi 0 \<le> \<bar>x\<bar>" by simp
  from exponent_up_bounds [OF this, of 1023] True assms show ?thesis
    by (simp add: float_exponent_def)
next
  case False
  then have "\<bar>x\<bar> < 2 powi (- 1 + 1)" by simp
  from exponent_down_bounds [OF this, of 1021] False show ?thesis
    by (simp add: float_exponent_def)
qed

lemma two_powi_less_imp: "(2::real) powi a < 2 powi b \<Longrightarrow> a < b"
proof (rule ccontr)
  assume less: "(2::real) powi a < 2 powi b" and "\<not> a < b"
  then have "b \<le> a" by simp
  then have "(2::real) powi b \<le> 2 powi a" by (intro power_int_increasing) auto
  with less show False by simp
qed

lemma float_exponent_eq:
  assumes "2 powi e \<le> \<bar>x\<bar>" and "\<bar>x\<bar> < 2 powi (e + 1)" and "- 1022 \<le> e" and "e \<le> 1023"
  shows "float_exponent x = e"
proof -
  have lo: "(2::real) powi (- 1022) \<le> 2 powi e"
    using assms(3) by (intro power_int_increasing) auto
  have hi: "(2::real) powi (e + 1) \<le> 2 powi 1024"
    using assms(4) by (intro power_int_increasing) auto
  from lo assms(1) have "2 powi (float_exponent x) \<le> \<bar>x\<bar>"
    by (intro float_exponent_lower) linarith
  with assms(2) have "(2::real) powi (float_exponent x) < 2 powi (e + 1)" by linarith
  then have a: "float_exponent x < e + 1"
    by (rule two_powi_less_imp)
  from hi assms(2) have "\<bar>x\<bar> < 2 powi (float_exponent x + 1)"
    by (intro float_exponent_upper) linarith
  with assms(1) have "(2::real) powi e < 2 powi (float_exponent x + 1)" by linarith
  then have b: "e < float_exponent x + 1"
    by (rule two_powi_less_imp)
  from a b show ?thesis by linarith
qed

lemma two_powi_le_imp: "(2::real) powi a \<le> 2 powi b \<Longrightarrow> a \<le> b"
proof (rule ccontr)
  assume le: "(2::real) powi a \<le> 2 powi b" and "\<not> a \<le> b"
  then have "b < a" by simp
  then have "(2::real) powi b < 2 powi a" by (intro power_int_strict_increasing) auto
  with le show False by simp
qed

lemma two_powi_split: "(2::real) powi a * 2 powi b = 2 powi (a + b)"
  by (simp add: power_int_add)

lemma exponent_down_bottom:
  "exponent_down fuel e x = e - int fuel \<or> 2 powi (exponent_down fuel e x) \<le> x"
proof (induction fuel arbitrary: e)
  case 0
  then show ?case by simp
next
  case (Suc fuel)
  from Suc.IH [of "e - 1"] show ?case by (auto simp: algebra_simps)
qed

lemma float_exponent_bottom:
  "float_exponent x = - 1022 \<or> 2 powi (float_exponent x) \<le> \<bar>x\<bar>"
proof (cases "1 \<le> \<bar>x\<bar>")
  case True
  then have "(2::real) powi 0 \<le> \<bar>x\<bar>" by simp
  from exponent_up_bounds [OF this, of 1023] True show ?thesis
    by (simp add: float_exponent_def)
next
  case False
  with exponent_down_bottom [of 1021 "- 1" "\<bar>x\<bar>"] show ?thesis
    by (simp add: float_exponent_def)
qed

lemma float_exponent_nonneg: "1 \<le> \<bar>x\<bar> \<Longrightarrow> 0 \<le> float_exponent x"
proof -
  assume a: "1 \<le> \<bar>x\<bar>"
  then have "(2::real) powi 0 \<le> \<bar>x\<bar>" by simp
  from exponent_up_bounds [OF this, of 1023] a show ?thesis
    by (simp add: float_exponent_def)
qed

lemma round_half_even_le: "z \<le> of_int m \<Longrightarrow> round_half_even z \<le> m"
proof -
  assume a: "z \<le> of_int m"
  show ?thesis
  proof (cases "z = of_int m")
    case True
    then show ?thesis by (simp add: round_half_even_def)
  next
    case False
    with a have "z < of_int m" by simp
    then have "\<lfloor>z\<rfloor> < m" by (simp add: floor_less_iff)
    then show ?thesis by (simp add: round_half_even_def Let_def)
  qed
qed

lemma round_half_even_ge: "of_int m \<le> z \<Longrightarrow> m \<le> round_half_even z"
proof -
  assume "of_int m \<le> z"
  then have "m \<le> \<lfloor>z\<rfloor>" by (simp add: le_floor_iff)
  then show ?thesis by (simp add: round_half_even_def Let_def)
qed


lemma float_round_zero: "float_round 0 = 0"
  by (simp add: float_round_def round_half_even_def)

lemma float_round_eval:
  assumes "2 powi e \<le> \<bar>x\<bar>" and "\<bar>x\<bar> < 2 powi (e + 1)" and "- 1022 \<le> e" and "e \<le> 1023"
  shows "float_round x = of_int (round_half_even (x / 2 powi (e - 52))) * 2 powi (e - 52)"
  using float_exponent_eq [OF assms] by (simp add: float_round_def Let_def)

lemma float_round_abs_le:
  assumes "\<bar>x\<bar> \<le> 2 powi k" and "- 1074 \<le> k"
  shows "\<bar>float_round x\<bar> \<le> 2 powi k"
proof -
  define e where "e = float_exponent x"
  define u :: real where "u = 2 powi (e - 52)"
  have u: "0 < u" by (simp add: u_def)
  have ek: "e - 52 \<le> k"
  proof (cases "e = - 1022")
    case True
    with assms(2) show ?thesis by simp
  next
    case False
    with float_exponent_bottom [of x] have "2 powi e \<le> \<bar>x\<bar>" by (simp add: e_def)
    with assms(1) have "(2::real) powi e \<le> 2 powi k" by linarith
    then have "e \<le> k" by (rule two_powi_le_imp)
    then show ?thesis by simp
  qed
  define m :: int where "m = 2 ^ nat (k - (e - 52))"
  have mu: "of_int m * u = 2 powi k"
  proof -
    have "of_int m = (2::real) powi (k - (e - 52))"
      using ek by (simp add: m_def power_int_def)
    then have "of_int m * u = (2::real) powi (k - (e - 52)) * 2 powi (e - 52)"
      by (simp add: u_def)
    also have "\<dots> = 2 powi k"
      using two_powi_split [of "k - (e - 52)" "e - 52"] by simp
    finally show ?thesis .
  qed
  have "x / u \<le> of_int m"
  proof -
    have "x \<le> of_int m * u" using assms(1) mu by linarith
    with u show ?thesis by (simp add: pos_divide_le_eq)
  qed
  then have hi: "round_half_even (x / u) \<le> m" by (rule round_half_even_le)
  have "of_int (- m) \<le> x / u"
  proof -
    have "- (of_int m * u) \<le> x" using assms(1) mu by linarith
    with u show ?thesis by (simp add: pos_le_divide_eq)
  qed
  then have lo: "- m \<le> round_half_even (x / u)" by (rule round_half_even_ge)
  from hi lo have "\<bar>round_half_even (x / u)\<bar> \<le> m" by linarith
  then have "\<bar>of_int (round_half_even (x / u)) :: real\<bar> \<le> of_int m"
    by (metis of_int_abs of_int_le_iff)
  then have "\<bar>of_int (round_half_even (x / u))\<bar> * u \<le> of_int m * u"
    using u by (intro mult_right_mono) auto
  moreover have "float_round x = of_int (round_half_even (x / u)) * u"
    by (simp add: float_round_def u_def e_def Let_def)
  ultimately show ?thesis
    using u mu by (simp add: abs_mult)
qed

lemma float_round_ge_one:
  assumes "1 \<le> x"
  shows "1 \<le> float_round x"
proof -
  define e where "e = float_exponent x"
  define u :: real where "u = 2 powi (e - 52)"
  have u: "0 < u" by (simp add: u_def)
  have e0: "0 \<le> e" using float_exponent_nonneg [of x] assms by (simp add: e_def)
  have "e = - 1022 \<or> 2 powi e \<le> \<bar>x\<bar>"
    using float_exponent_bottom [of x] by (simp add: e_def)
  with e0 assms have ex: "2 powi e \<le> x" by auto
  have pu: "of_int (2 ^ 52) * u = 2 powi e"
  proof -
    have "of_int (2 ^ 52) * u = (2::real) powi 52 * 2 powi (e - 52)"
      by (simp add: u_def)
    also have "\<dots> = 2 powi e"
      using two_powi_split [of 52 "e - 52"] by simp
    finally show ?thesis .
  qed
  have "of_int (2 ^ 52) \<le> x / u"
  proof -
    have "of_int (2 ^ 52) * u \<le> x" using ex pu by linarith
    with u show ?thesis by (simp add: pos_le_divide_eq)
  qed
  then have "2 ^ 52 \<le> round_half_even (x / u)" by (rule round_half_even_ge)
  then have "(of_int (2 ^ 52) :: real) \<le> of_int (round_half_even (x / u))"
    by (simp only: of_int_le_iff)
  then have "of_int (2 ^ 52) * u \<le> of_int (round_half_even (x / u)) * u"
    using u by (intro mult_right_mono) auto
  moreover have "float_round x = of_int (round_half_even (x / u)) * u"
    by (simp add: float_round_def u_def e_def Let_def)
  moreover have "(1::real) \<le> 2 powi e"
    using e0 by (simp add: power_int_def)
  ultimately show ?thesis using pu by linarith
qed


lemma not_float_overflow:
  assumes "\<bar>x\<bar> \<le> 2 ^ 1023"
  shows "\<not> float_overflow x"
proof -
  have "\<bar>x\<bar> \<le> 2 powi 1023" using assms by simp
  then have "\<bar>float_round x\<bar> \<le> 2 powi 1023" by (rule float_round_abs_le) simp
  moreover have "(2::real) ^ 1023 \<le> float_max"
    by (simp add: float_max_def)
  ultimately show ?thesis by (simp add: float_overflow_def)
qed

lemma exponent_up_top:
  "exponent_up fuel e x = e + int fuel \<or> x < 2 powi (exponent_up fuel e x + 1)"
proof (induction fuel arbitrary: e)
  case 0
  then show ?case by simp
next
  case (Suc fuel)
  from Suc.IH [of "e + 1"] show ?case by (auto simp: algebra_simps)
qed

lemma float_overflow_large:
  assumes "2 ^ 1024 \<le> x"
  shows "float_overflow x"
proof -
  have x1: "1 \<le> \<bar>x\<bar>"
  proof -
    have "(1::real) \<le> 2 ^ 1024" by (rule one_le_power) simp
    with assms show ?thesis by linarith
  qed
  have e: "float_exponent x = 1023"
  proof -
    have "exponent_up 1023 0 \<bar>x\<bar> = 0 + int 1023
            \<or> \<bar>x\<bar> < 2 powi (exponent_up 1023 0 \<bar>x\<bar> + 1)"
      by (rule exponent_up_top)
    moreover have "\<not> \<bar>x\<bar> < 2 powi (exponent_up 1023 0 \<bar>x\<bar> + 1)"
    proof -
      have "float_exponent x \<le> 1023" using float_exponent_range [of x] by simp
      then have "exponent_up 1023 0 \<bar>x\<bar> + 1 \<le> 1024"
        using x1 by (simp add: float_exponent_def)
      then have "(2::real) powi (exponent_up 1023 0 \<bar>x\<bar> + 1) \<le> 2 powi 1024"
        by (intro power_int_increasing) auto
      with assms show ?thesis by simp
    qed
    ultimately show ?thesis using x1 by (simp add: float_exponent_def)
  qed
  have "of_int (2 ^ 53) \<le> x / 2 powi (1023 - 52)"
    using assms by (simp add: pos_le_divide_eq flip: power_add)
  then have "2 ^ 53 \<le> round_half_even (x / 2 powi (1023 - 52))" by (rule round_half_even_ge)
  then have "(of_int (2 ^ 53) :: real) \<le> of_int (round_half_even (x / 2 powi (1023 - 52)))"
    by (simp only: of_int_le_iff)
  then have "of_int (2 ^ 53) * 2 powi (1023 - 52)
               \<le> of_int (round_half_even (x / 2 powi (1023 - 52))) * (2::real) powi (1023 - 52)"
    by (intro mult_right_mono) auto
  then have "2 ^ 53 * 2 ^ 971 \<le> float_round x"
    using e by (simp add: float_round_def Let_def)
  moreover have "float_max < 2 ^ 53 * 2 ^ 971"
    by (simp add: float_max_def)
  ultimately show ?thesis by (simp add: float_overflow_def)
qed



section \<open>Properties of the allocator and the goal calculators\<close>

lemma allocate_budget_sum:
  "dict_values_sum (allocate_budget income s i p (Some m)) = income * (s + i + p + m) / 100"
  by (simp add: allocate_budget_def dict_values_sum_def get_or_def algebra_simps)

text \<open>
  C4, as stated: with four non-negative percentages whose sum is within 0.01 of 100, the
  category values sum to the income within 1e-6. The allocator does not validate or
  rescale, so the error of the percentages is scaled by the income: at an income of
  100000 and percentages 20, 20, 45, 15.005 the total is 100005.
\<close>

theorem allocate_budget_tolerance_counterexample:
  "(0::real) \<le> 20 \<and> (0::real) \<le> 45 \<and> (0::real) \<le> 15.005
   \<and> \<bar>(20 + 20 + 45 + 15.005) - (100::real)\<bar> \<le> 0.01
   \<and> \<not> \<bar>dict_values_sum (allocate_budget 100000 20 20 45 (Some 15.005)) - 100000\<bar> \<le> 0.000001"
  by (simp add: allocate_budget_sum)

text \<open>
  C4, amended: the category values sum to \<open>income * (s + i + p + m) / 100\<close>; they sum to
  the income itself when the percentages sum to exactly 100, and lie within
  \<open>\<bar>income\<bar> / 10000\<close> of it when the percentages sum to 100 within 0.01.
\<close>

theorem allocate_budget_total:
  "(s + i + p + m = 100 \<longrightarrow> dict_values_sum (allocate_budget income s i p (Some m)) = income)
   \<and> (\<bar>s + i + p + m - 100\<bar> \<le> 0.01 \<longrightarrow>
        \<bar>dict_values_sum (allocate_budget income s i p (Some m)) - income\<bar> \<le> \<bar>income\<bar> / 10000)"
proof (intro conjI impI)
  assume "s + i + p + m = 100"
  then show "dict_values_sum (allocate_budget income s i p (Some m)) = income"
    by (simp add: allocate_budget_sum)
next
  assume tol: "\<bar>s + i + p + m - 100\<bar> \<le> 0.01"
  have "dict_values_sum (allocate_budget income s i p (Some m)) - income
          = income * ((s + i + p + m - 100) / 100)"
    by (simp add: allocate_budget_sum algebra_simps)
  then have "\<bar>dict_values_sum (allocate_budget income s i p (Some m)) - income\<bar>
          = \<bar>income * ((s + i + p + m - 100) / 100)\<bar>"
    by (rule arg_cong)
  also have "\<dots> = \<bar>income\<bar> * (\<bar>s + i + p + m - 100\<bar> / 100)"
    by (simp add: abs_mult)
  also have "\<dots> \<le> \<bar>income\<bar> * (0.01 / 100)"
    using tol by (intro mult_left_mono divide_right_mono) simp_all
  finally show "\<bar>dict_values_sum (allocate_budget income s i p (Some m)) - income\<bar>
          \<le> \<bar>income\<bar> / 10000"
    by simp
qed

theorem allocate_budget_total_witness:
  "(20 + 20 + 45 + 15 = (100::real))
   \<and> dict_values_sum (allocate_budget 100000 20 20 45 (Some 15)) = 100000
   \<and> \<bar>(20 + 20 + 45 + 15.005) - (100::real)\<bar> \<le> 0.01
   \<and> \<bar>dict_values_sum (allocate_budget 100000 20 20 45 (Some 15.005)) - 100000\<bar> \<le> \<bar>100000\<bar> / 10000"
  using allocate_budget_total [of 20 20 45 15 100000]
        allocate_budget_total [of 20 20 45 "15.005" 100000]
  by simp

text \<open>
  C5: for every target and every \<open>months > 0\<close>, the investment calculator at an annual
  return of 0 gives \<open>target / months\<close>, the value of the savings calculator.
\<close>

theorem investment_goal_calculator_zero_rate:
  "0 < months \<Longrightarrow>
     investment_goal_calculator target months 0 = Inr (target / of_int months)
     \<and> investment_goal_calculator target months 0 = savings_goal_calculator target months"
  by (simp add: investment_goal_calculator_def savings_goal_calculator_def py_div_def
      monthly_rate_def float_round_zero)

theorem investment_goal_calculator_zero_rate_witness:
  "(0::int) < 12
   \<and> investment_goal_calculator 120000 12 0 = Inr 10000
   \<and> investment_goal_calculator 120000 12 0 = savings_goal_calculator 120000 12"
  using investment_goal_calculator_zero_rate [of 12 120000]
  by (simp add: savings_goal_calculator_def py_div_def)

text \<open>
  C10: a call of \<open>allocate_budget\<close> without the misc percentage takes it as 15, so the
  misc amount is \<open>0.15 * total_amount\<close>.
\<close>

theorem allocate_budget_default_misc:
  "dict_item (allocate_budget total_amount s i p None) ''misc'' = Inr (0.15 * total_amount)"
  by (simp add: allocate_budget_def dict_item_def get_or_def)

section \<open>Properties of the reallocation planner and the asset allocation optimizer\<close>

lemma dict_item_update:
  "dict_item (AList.update k v d) k' = (if k' = k then Inr v else dict_item d k')"
  by (simp add: dict_item_def update_conv')

lemma category_totalE:
  assumes "category_total d = Inr t"
  obtains a b c e where "dict_item d ''savings'' = Inr a" "dict_item d ''investments'' = Inr b"
    "dict_item d ''personal'' = Inr c" "dict_item d ''misc'' = Inr e" "t = a + b + c + e"
  using assms by (auto simp: category_total_def split: sum.splits)

text \<open>
  C1: the planner returns \<open>None\<close> only when the freed amount is less than the combined
  shortfall, and never returns a plan that covers the shortfall only in part. The code
  returns a plan as soon as anything was freed: with an income of 1000, the floor is 50,
  misc 150 and personal 450 free 500 of a combined shortfall of 600, and the plan returned
  raises investments to 400 where 500 are required.
\<close>

theorem create_unified_reallocation_plan_partial_cover:
  "create_unified_reallocation_plan
     [(''savings'', 200), (''investments'', 200), (''personal'', 450), (''misc'', 150)]
     300 300 1000
   = Inr (Some [(''savings'', 500), (''investments'', 400), (''personal'', 50), (''misc'', 50)])
   \<and> (400::real) < 200 + 300"
  by (simp add: create_unified_reallocation_plan_def dict_item_def)

text \<open>
  C2: whenever the planner returns a plan for shortfalls that are not negative, the four
  category amounts of the plan sum to the same total as those of the input allocation.
\<close>

theorem create_unified_reallocation_plan_total:
  assumes "create_unified_reallocation_plan allocation savings_shortfall investment_shortfall
             total_income = Inr (Some new_allocation)"
    and "0 \<le> savings_shortfall" and "0 \<le> investment_shortfall"
    and "category_total allocation = Inr t"
  shows "category_total new_allocation = Inr t"
proof -
  from assms(4) obtain a b c e where items:
    "dict_item allocation ''savings'' = Inr a" "dict_item allocation ''investments'' = Inr b"
    "dict_item allocation ''personal'' = Inr c" "dict_item allocation ''misc'' = Inr e"
    "t = a + b + c + e"
    by (rule category_totalE)
  show ?thesis
    using assms(1-3) items
    by (auto simp: create_unified_reallocation_plan_def category_total_def Let_def
        dict_item_update min_def max_def split: if_splits)
qed

theorem create_unified_reallocation_plan_total_witness:
  "create_unified_reallocation_plan
     [(''savings'', 200), (''investments'', 200), (''personal'', 450), (''misc'', 150)]
     100 30 1000
   = Inr (Some [(''savings'', 300), (''investments'', 230), (''personal'', 420), (''misc'', 50)])
   \<and> (0::real) \<le> 100 \<and> (0::real) \<le> 30
   \<and> category_total [(''savings'', 200), (''investments'', 200), (''personal'', 450), (''misc'', 150)]
       = Inr 1000
   \<and> category_total [(''savings'', 300), (''investments'', 230), (''personal'', 420), (''misc'', 50)]
       = Inr 1000"
proof -
  have run: "create_unified_reallocation_plan
     [(''savings'', 200), (''investments'', 200), (''personal'', 450), (''misc'', 150)]
     100 30 1000
   = Inr (Some [(''savings'', 300), (''investments'', 230), (''personal'', 420), (''misc'', 50)])"
    by (simp add: create_unified_reallocation_plan_def dict_item_def)
  have tot: "category_total
      [(''savings'', 200), (''investments'', 200), (''personal'', 450), (''misc'', 150)] = Inr 1000"
    by (simp add: category_total_def dict_item_def)
  show ?thesis
    using create_unified_reallocation_plan_total [OF run _ _ tot] run tot by simp
qed

lemma age_bucket_less:
  "age_bucket age < 30 \<longleftrightarrow> age < 30" "age_bucket age < 40 \<longleftrightarrow> age < 40"
  "age_bucket age < 50 \<longleftrightarrow> age < 50" "age_bucket age < 60 \<longleftrightarrow> age < 60"
  by (simp_all add: age_bucket_def)

lemma timeline_bucket_less:
  "timeline_bucket t < 2 \<longleftrightarrow> t < 2" "timeline_bucket t < 5 \<longleftrightarrow> t < 5"
  by (simp_all add: timeline_bucket_def)

lemma optimizer_bucket:
  "asset_allocation_optimizer age risk t
     = asset_allocation_optimizer (age_bucket age) risk (timeline_bucket t)"
  unfolding asset_allocation_optimizer_def
  by (simp only: age_bucket_less timeline_bucket_less)

lemma age_bucket_cases: "age_bucket age \<in> set [29, 39, 49, 59, 60]"
  by (simp add: age_bucket_def)

lemma timeline_bucket_cases: "timeline_bucket t \<in> set [1, 2, 5]"
  by (simp add: timeline_bucket_def)

lemma optimizer_table:
  "\<forall>age \<in> set [29, 39, 49, 59, 60]. \<forall>t \<in> set [1, 2, 5].
     (\<forall>risk \<in> set [''conservative'', ''moderate'', ''aggressive''].
        sums_to_100 (asset_allocation_optimizer age risk t))
     \<and> stocks_at_most 40 (asset_allocation_optimizer age ''conservative'' t)"
  by code_simp

text \<open>
  C6: for every age of at least 18, each of the three risk tolerances and every timeline
  of at least one year, the optimizer returns percentages, rounded to one decimal place,
  that sum to 100 within 0.1.
\<close>

theorem asset_allocation_optimizer_sum:
  assumes "18 \<le> age" and "risk \<in> set [''conservative'', ''moderate'', ''aggressive'']"
    and "0 < timeline"
  shows "\<exists>a. asset_allocation_optimizer age risk timeline = Inr a
            \<and> \<bar>stocks a + bonds a + cash a - 100\<bar> \<le> 0.1"
proof -
  have "sums_to_100 (asset_allocation_optimizer (age_bucket age) risk (timeline_bucket timeline))"
    using optimizer_table age_bucket_cases [of age] timeline_bucket_cases [of timeline] assms(2)
    by blast
  then have "sums_to_100 (asset_allocation_optimizer age risk timeline)"
    by (simp only: optimizer_bucket [symmetric])
  then show ?thesis
    by (auto simp: sums_to_100_def split: sum.splits)
qed

text \<open>
  C7: for the conservative risk tolerance the stocks percentage is at most 40, for every
  age of at least 18 and every timeline of at least one year.
\<close>

theorem asset_allocation_optimizer_conservative:
  assumes "18 \<le> age" and "0 < timeline"
  shows "\<exists>a. asset_allocation_optimizer age ''conservative'' timeline = Inr a \<and> stocks a \<le> 40"
proof -
  have "stocks_at_most 40
          (asset_allocation_optimizer (age_bucket age) ''conservative'' (timeline_bucket timeline))"
    using optimizer_table age_bucket_cases [of age] timeline_bucket_cases [of timeline]
    by blast
  then have "stocks_at_most 40 (asset_allocation_optimizer age ''conservative'' timeline)"
    by (simp only: optimizer_bucket [symmetric])
  then show ?thesis
    by (auto simp: stocks_at_most_def split: sum.splits)
qed

theorem asset_allocation_optimizer_sum_witness:
  "(18::int) \<le> 18 \<and> ''moderate'' \<in> set [''conservative'', ''moderate'', ''aggressive'']
   \<and> (0::int) < 1
   \<and> (\<exists>a. asset_allocation_optimizer 18 ''moderate'' 1 = Inr a
            \<and> \<bar>stocks a + bonds a + cash a - 100\<bar> \<le> 0.1)"
  using asset_allocation_optimizer_sum [of 18 "''moderate''" 1] by simp

theorem asset_allocation_optimizer_conservative_witness:
  "(18::int) \<le> 60 \<and> (0::int) < 5
   \<and> (\<exists>a. asset_allocation_optimizer 60 ''conservative'' 5 = Inr a \<and> stocks a \<le> 40)"
  using asset_allocation_optimizer_conservative [of 60 5] by simp

section \<open>Properties of the dynamic reallocation advisor\<close>







lemma redirect_surplus_nonempty:
  "0 < ts \<Longrightarrow> redirect_surplus a s sc ts (p # ps) [] \<noteq> []"
  by (simp add: Let_def)








section \<open>Properties of the goal conflict resolver, the calculators and the trackers\<close>

lemma score_goal_total:
  "\<exists>sg. score_goal income alloc g = Inr sg
        \<and> sg_name sg = get_or ''Unnamed Goal'' (goal_name g)"
  by (simp add: score_goal_def calculate_roi_score_def calculate_feasibility_score_def
      py_div_def Let_def)

lemma score_goals_total:
  "\<exists>scored. score_goals income alloc goals acc = Inr scored
            \<and> length scored = length acc + length goals
            \<and> map sg_name scored
                  = map sg_name acc @ map (\<lambda>g. get_or ''Unnamed Goal'' (goal_name g)) goals"
proof (induction goals arbitrary: acc)
  case Nil
  then show ?case by simp
next
  case (Cons g goals)
  obtain sg where sg: "score_goal income alloc g = Inr sg"
    "sg_name sg = get_or ''Unnamed Goal'' (goal_name g)"
    using score_goal_total by blast
  from Cons.IH [of "acc @ [sg]"] sg show ?case by auto
qed

lemma py_sorted_reverse_sorted:
  "sorted_wrt (\<lambda>a b. key a \<ge> key b) (py_sorted_reverse key xs)"
proof -
  have "sorted (map key (sort_key key (rev xs)))" by simp
  then have "sorted_wrt (\<lambda>a b. key a \<le> key b) (sort_key key (rev xs))"
    by (simp add: sorted_wrt_map)
  then show ?thesis
    by (simp add: py_sorted_reverse_def sorted_wrt_rev)
qed

lemma py_sorted_reverse_stable:
  "filter (\<lambda>x. key x = k) (py_sorted_reverse key xs) = filter (\<lambda>x. key x = k) xs"
  by (simp add: py_sorted_reverse_def sort_key_stable flip: rev_filter)


text \<open>
  C8: for at least two goals the resolver returns the scored goals in an order that does
  not increase in \<open>total_score\<close>, and goals of equal \<open>total_score\<close> keep the relative
  order in which they were given. \<open>scored\<close> is the list of scored goals before the
  sort, one for each goal in the order of the input.
\<close>

theorem goal_conflict_resolver_ranking:
  assumes "2 \<le> length goals"
  shows "\<exists>scored ranked.
           score_goals monthly_income current_allocation goals [] = Inr scored
         \<and> map sg_name scored = map (\<lambda>g. get_or ''Unnamed Goal'' (goal_name g)) goals
         \<and> goal_conflict_resolver goals monthly_income current_allocation = Inr (Some ranked)
         \<and> sorted_wrt (\<lambda>a b. sg_total_score a \<ge> sg_total_score b) ranked
         \<and> (\<forall>k. filter (\<lambda>g. sg_total_score g = k) ranked
                  = filter (\<lambda>g. sg_total_score g = k) scored)"
proof -
  obtain scored where sc:
    "score_goals monthly_income current_allocation goals [] = Inr scored"
    "map sg_name scored = map (\<lambda>g. get_or ''Unnamed Goal'' (goal_name g)) goals"
    using score_goals_total [of monthly_income current_allocation goals "[]"] by auto
  have ne: "\<not> (goals = [] \<or> length goals < 2)" using assms by auto
  have "goal_conflict_resolver goals monthly_income current_allocation
          = Inr (Some (py_sorted_reverse sg_total_score scored))"
    using sc(1) ne by (simp add: goal_conflict_resolver_def)
  then show ?thesis
    using sc py_sorted_reverse_sorted [of sg_total_score scored]
      py_sorted_reverse_stable [of sg_total_score _ scored]
    by blast
qed

theorem goal_conflict_resolver_ranking_witness:
  "2 \<le> length [trip, house, car]
   \<and> (\<exists>scored ranked.
           score_goals 1000 [(''savings'', 500)] [trip, house, car] [] = Inr scored
         \<and> map sg_name scored
               = map (\<lambda>g. get_or ''Unnamed Goal'' (goal_name g)) [trip, house, car]
         \<and> goal_conflict_resolver [trip, house, car] 1000 [(''savings'', 500)] = Inr (Some ranked)
         \<and> sorted_wrt (\<lambda>a b. sg_total_score a \<ge> sg_total_score b) ranked
         \<and> (\<forall>k. filter (\<lambda>g. sg_total_score g = k) ranked
                  = filter (\<lambda>g. sg_total_score g = k) scored))"
  using goal_conflict_resolver_ranking [of "[trip, house, car]" 1000 "[(''savings'', 500)]"]
  by simp

lemma goal_conflict_resolver_example:
  "map_sum id (map_option (map (\<lambda>g. (sg_name g, sg_total_score g))))
     (goal_conflict_resolver [trip, house, car] 1000 [(''savings'', 500)])
   = Inr (Some [(''house'', 8.4), (''trip'', 6), (''car'', 6)])"
  by code_simp












lemma usage_percentage_total: "\<exists>v. usage_percentage spent allocated = Inr v"
  by (simp add: usage_percentage_def py_div_def)








lemma monthly_rate_twelve:
  "monthly_rate 12 = 5764607523034235 * 2 powi (- 59)"
proof -
  have a: "float_round (12 / 100) = 8646911284551352 * 2 powi (- 56)"
    by (subst float_round_eval [where e = "- 4"])
       (simp_all add: round_half_even_def Let_def power_int_minus)
  have b: "float_round (8646911284551352 * 2 powi (- 56) / 12)
             = 5764607523034235 * 2 powi (- 59)"
    by (subst float_round_eval [where e = "- 7"])
       (simp_all add: round_half_even_def Let_def power_int_minus)
  show ?thesis unfolding monthly_rate_def a b ..
qed

lemma one_plus_monthly_rate_twelve:
  "float_round (1 + monthly_rate 12) = 4548635623644201 * 2 powi (- 52)"
  unfolding monthly_rate_twelve
  by (subst float_round_eval [where e = 0])
     (simp_all add: round_half_even_def Let_def power_int_minus)

lemma power_out_of_range:
  fixes b :: real
  assumes "101 / 100 \<le> b"
  shows "2 ^ 1024 \<le> b ^ 100000"
proof -
  have b1: "1 \<le> b" using assms by simp
  have "(101 / 100) ^ 70 \<le> b ^ 70"
    using assms by (intro power_mono) simp_all
  moreover have "(2::real) \<le> (101 / 100) ^ 70" by (simp add: power_divide)
  ultimately have b70: "2 \<le> b ^ 70" by linarith
  have "(2::real) ^ 1024 \<le> (b ^ 70) ^ 1024"
    using b70 by (intro power_mono) auto
  also have "\<dots> = b ^ (70 * 1024)" by (simp only: power_mult)
  also have "\<dots> \<le> b ^ 100000"
    using b1 by (intro power_increasing) simp_all
  finally show ?thesis .
qed

lemma investment_goal_calculator_overflow:
  "investment_goal_calculator 120000 100000 12 = Inl OverflowError"
proof -
  define b :: real where "b = float_round (1 + monthly_rate 12)"
  have ge: "101 / 100 \<le> b"
    by (simp add: b_def one_plus_monthly_rate_twelve power_int_minus)
  then have b0: "b \<noteq> 0" by simp
  from ge have "2 ^ 1024 \<le> b ^ 100000" by (rule power_out_of_range)
  then have "float_overflow (b ^ 100000)"
    by (rule float_overflow_large)
  then have big: "float_overflow (b powi 100000)" by simp
  have small: "\<not> float_overflow (of_int 100000)"
    by (rule not_float_overflow) simp
  have r: "monthly_rate 12 \<noteq> 0" by (simp add: monthly_rate_twelve)
  have "py_pow b 100000 = Inl OverflowError"
    using big small b0 by (simp add: py_pow_def)
  with r show ?thesis
    by (simp add: investment_goal_calculator_def Let_def flip: b_def)
qed




end
